theory Spec2Isabelle
  imports Complex_Main
begin

section \<open>JavaScript numbers\<close>

text \<open>
  The colour picker computes with JavaScript numbers. A finite number is represented by
  the rational it denotes; the two infinities and NaN are values of their own, because
  the picker can produce them (a division by a zero width). Two idealisations are
  made: arithmetic on finite numbers is exact (the rounding error of binary
  floating-point arithmetic is not modelled), and the two zeros are one value (a
  nonzero number divided by zero takes the sign of the dividend, as for a positive
  zero; the picker never divides a nonzero offset by zero, see \<open>clamp_offset\<close>).
\<close>

datatype jsnum = Fin rat | PInf | NInf | NaN

text \<open>The infinity of the given sign (\<open>True\<close> for positive).\<close>

definition js_inf :: "bool \<Rightarrow> jsnum" where
  "js_inf positive = (if positive then PInf else NInf)"

fun js_sub :: "jsnum \<Rightarrow> jsnum \<Rightarrow> jsnum" where
  "js_sub NaN y = NaN"
| "js_sub x NaN = NaN"
| "js_sub (Fin a) (Fin b) = Fin (a - b)"
| "js_sub (Fin a) PInf = NInf"
| "js_sub (Fin a) NInf = PInf"
| "js_sub PInf PInf = NaN"
| "js_sub PInf y = PInf"
| "js_sub NInf NInf = NaN"
| "js_sub NInf y = NInf"

fun js_mul :: "jsnum \<Rightarrow> jsnum \<Rightarrow> jsnum" where
  "js_mul NaN y = NaN"
| "js_mul x NaN = NaN"
| "js_mul (Fin a) (Fin b) = Fin (a * b)"
| "js_mul (Fin a) PInf = (if a = 0 then NaN else js_inf (0 < a))"
| "js_mul (Fin a) NInf = (if a = 0 then NaN else js_inf (a < 0))"
| "js_mul PInf (Fin b) = (if b = 0 then NaN else js_inf (0 < b))"
| "js_mul NInf (Fin b) = (if b = 0 then NaN else js_inf (b < 0))"
| "js_mul PInf PInf = PInf"
| "js_mul PInf NInf = NInf"
| "js_mul NInf PInf = NInf"
| "js_mul NInf NInf = PInf"

fun js_div :: "jsnum \<Rightarrow> jsnum \<Rightarrow> jsnum" where
  "js_div NaN y = NaN"
| "js_div x NaN = NaN"
| "js_div (Fin a) (Fin b) =
     (if b = 0 then (if a = 0 then NaN else js_inf (0 < a)) else Fin (a / b))"
| "js_div (Fin a) PInf = Fin 0"
| "js_div (Fin a) NInf = Fin 0"
| "js_div PInf (Fin b) = js_inf (0 \<le> b)"
| "js_div NInf (Fin b) = js_inf (b < 0)"
| "js_div PInf y = NaN"
| "js_div NInf y = NaN"

text \<open>\<open>Math.round\<close>: the nearest integer, a tie going up.\<close>

fun js_round :: "jsnum \<Rightarrow> jsnum" where
  "js_round (Fin a) = Fin (of_int \<lfloor>a + 1 / 2\<rfloor>)"
| "js_round x = x"

text \<open>The comparisons \<open><\<close> and \<open><=\<close>; every comparison with NaN is false.\<close>

fun js_lt :: "jsnum \<Rightarrow> jsnum \<Rightarrow> bool" where
  "js_lt NaN y = False"
| "js_lt x NaN = False"
| "js_lt (Fin a) (Fin b) = (a < b)"
| "js_lt x NInf = False"
| "js_lt PInf y = False"
| "js_lt x y = True"

fun js_le :: "jsnum \<Rightarrow> jsnum \<Rightarrow> bool" where
  "js_le NaN y = False"
| "js_le x NaN = False"
| "js_le (Fin a) (Fin b) = (a \<le> b)"
| "js_le NInf y = True"
| "js_le x PInf = True"
| "js_le x y = False"

definition js_gt :: "jsnum \<Rightarrow> jsnum \<Rightarrow> bool" where
  "js_gt x y = js_lt y x"

definition js_ge :: "jsnum \<Rightarrow> jsnum \<Rightarrow> bool" where
  "js_ge x y = js_le y x"

text \<open>\<open>!=\<close> on numbers: NaN differs from every number, itself included.\<close>

definition js_neq :: "jsnum \<Rightarrow> jsnum \<Rightarrow> bool" where
  "js_neq x y = (x = NaN \<or> y = NaN \<or> x \<noteq> y)"

section \<open>Strings to numbers\<close>

text \<open>
  Strings are lists of bytes. The white space of ECMAScript (what \<open>trim\<close> and
  \<open>parseInt\<close> skip) is modelled by its ASCII members: tab, line feed, vertical tab,
  form feed, carriage return and space.
\<close>

definition isWhiteSpaceChar :: "char \<Rightarrow> bool" where
  "isWhiteSpaceChar c =
     (c = CHR 0x09 \<or> c = CHR 0x0A \<or> c = CHR 0x0B \<or> c = CHR 0x0C \<or> c = CHR 0x0D \<or> c = CHR '' '')"

text \<open>
  Modelled from the spec: \<open>isNullOrWhiteSpace\<close> of the utilities package is not among
  the sources. The spec calls the strings it accepts blank: the empty string and the
  strings of white space only (a null value has no counterpart among the strings).
\<close>

definition isNullOrWhiteSpace :: "string \<Rightarrow> bool" where
  "isNullOrWhiteSpace s = (dropWhile isWhiteSpaceChar s = [])"

text \<open>
  \<open>Number.isNaN\<close> does not convert its argument: it is true of the number NaN only, so
  of no string.
\<close>

definition Number_isNaN_string :: "string \<Rightarrow> bool" where
  "Number_isNaN_string s = False"

text \<open>The value of a digit in the given radix (10 or 16), if it is one.\<close>

definition digitValue :: "nat \<Rightarrow> char \<Rightarrow> nat option" where
  "digitValue radix c =
     (let n = (of_char c :: nat);
          d = (if 48 \<le> n \<and> n \<le> 57 then Some (n - 48)
               else if 97 \<le> n \<and> n \<le> 122 then Some (n - 87)
               else if 65 \<le> n \<and> n \<le> 90 then Some (n - 55)
               else None)
      in case d of None \<Rightarrow> None | Some k \<Rightarrow> if k < radix then Some k else None)"

definition isDigitOf :: "nat \<Rightarrow> char \<Rightarrow> bool" where
  "isDigitOf radix c = (digitValue radix c \<noteq> None)"

fun digitsValue :: "nat \<Rightarrow> nat \<Rightarrow> string \<Rightarrow> nat" where
  "digitsValue radix acc [] = acc"
| "digitsValue radix acc (c # cs) =
     digitsValue radix (acc * radix + (case digitValue radix c of None \<Rightarrow> 0 | Some k \<Rightarrow> k)) cs"

text \<open>
  \<open>parseInt\<close> with no radix: leading white space is skipped, then a sign is read, then
  a prefix \<open>0x\<close> or \<open>0X\<close> selects radix 16 (otherwise 10), then the longest run of
  digits is the number; whatever follows is ignored. With no digit the result is NaN.
\<close>

definition parseInt :: "string \<Rightarrow> jsnum" where
  "parseInt inputString =
     (let S = dropWhile isWhiteSpaceChar inputString;
          negative = (case S of [] \<Rightarrow> False | c # _ \<Rightarrow> c = CHR ''-'');
          S1 = (case S of [] \<Rightarrow> S | c # rest \<Rightarrow> if c = CHR ''+'' \<or> c = CHR ''-'' then rest else S);
          hex = (case S1 of c # d # _ \<Rightarrow> c = CHR ''0'' \<and> (d = CHR ''x'' \<or> d = CHR ''X'') | _ \<Rightarrow> False);
          R = (if hex then 16 else 10);
          S2 = (if hex then drop 2 S1 else S1);
          Z = takeWhile (isDigitOf R) S2
      in if Z = [] then NaN
         else if negative then Fin (- of_nat (digitsValue R 0 Z))
         else Fin (of_nat (digitsValue R 0 Z)))"

section \<open>Colours and the collaborators of the picker\<close>

text \<open>
  The objects of the classes \<open>ColorRGBA64\<close> and \<open>ColorHSV\<close> of the colour library
  hold their channels as numbers.
\<close>

datatype ColorRGBA64 =
  ColorRGBA64 (rgba_r: jsnum) (rgba_g: jsnum) (rgba_b: jsnum) (rgba_a: jsnum)

datatype ColorHSV =
  ColorHSV (hsv_h: jsnum) (hsv_s: jsnum) (hsv_v: jsnum)

text \<open>
  Modelled from the spec: the class \<open>ColorRGBA64\<close> is not among the sources. The
  spec gives a colour its four channels; the constructor \<open>new ColorRGBA64(...)\<close> of the
  library stores red, green and blue as they are given and guards the alpha: an alpha
  that is absent (the source builds opaque red from three arguments) or is NaN is
  replaced by 1. The constructor of \<open>ColorHSV\<close> stores its three arguments.
\<close>

definition new_ColorRGBA64 :: "jsnum \<Rightarrow> jsnum \<Rightarrow> jsnum \<Rightarrow> jsnum option \<Rightarrow> ColorRGBA64" where
  "new_ColorRGBA64 red green blue alpha =
     ColorRGBA64 red green blue
       (case alpha of None \<Rightarrow> Fin 1 | Some a \<Rightarrow> if a = NaN then Fin 1 else a)"

text \<open>
  The functions the picker imports, and the browser, are parameters of the model:
  \<^item> \<open>parseColor\<close> gives a colour, or null (\<open>None\<close>) for a string it cannot read;
  \<^item> \<open>rgbToHSV\<close> and \<open>hsvToRGB\<close> convert, the latter taking the alpha of its result;
  \<^item> \<open>toStringHexRGB\<close> and \<open>toStringWebRGBA\<close> serialise a colour;
  \<^item> \<open>cssBackgroundColor\<close> is the browser reading a value of the style property
    \<open>background-color\<close>: \<open>None\<close> when it refuses the value, otherwise the text the
    property then reads back.
\<close>

record env =
  parseColor :: "string \<Rightarrow> ColorRGBA64 option"
  rgbToHSV :: "ColorRGBA64 \<Rightarrow> ColorHSV"
  hsvToRGB :: "ColorHSV \<Rightarrow> jsnum \<Rightarrow> ColorRGBA64"
  toStringHexRGB :: "ColorRGBA64 \<Rightarrow> string"
  toStringWebRGBA :: "ColorRGBA64 \<Rightarrow> string"
  cssBackgroundColor :: "string \<Rightarrow> string option"

text \<open>The bounding box of an element, as \<open>getBoundingClientRect\<close> returns it.\<close>

datatype DOMRect =
  DOMRect (rect_left: jsnum) (rect_top: jsnum) (rect_width: jsnum) (rect_height: jsnum)

datatype error = TypeError

section \<open>The colour picker\<close>

record ColorPickerUI =
  RGBColor :: ColorRGBA64
  HSVColor :: ColorHSV
  HueCSSColor :: string
  HuePosition :: jsnum
  SatValTopPos :: jsnum
  SatValLeftPos :: jsnum
  AlphaPos :: jsnum

text \<open>The constructor of \<open>ColorPickerUI\<close>; \<open>hsvToRGB\<close> is called with its default alpha 1.\<close>

definition new_ColorPickerUI :: "env \<Rightarrow> ColorRGBA64 \<Rightarrow> ColorHSV \<Rightarrow> ColorPickerUI" where
  "new_ColorPickerUI E rgbColor hsvColor =
     (let temp = ColorHSV (hsv_h hsvColor) (Fin 1) (Fin 1)
      in \<lparr> RGBColor = rgbColor,
           HSVColor = hsvColor,
           HueCSSColor = toStringHexRGB E (hsvToRGB E temp (Fin 1)),
           HuePosition = js_mul (js_div (hsv_h hsvColor) (Fin 360)) (Fin 100),
           SatValTopPos = js_sub (Fin 100) (js_mul (hsv_v hsvColor) (Fin 100)),
           SatValLeftPos = js_mul (hsv_s hsvColor) (Fin 100),
           AlphaPos = js_mul (rgba_a rgbColor) (Fin 100) \<rparr>)"

text \<open>
  The state of a picker: the form value (the field \<open>value\<close> of the source), the
  observable flags and snapshot, the target and parameter of the drag under way (null
  is \<open>None\<close>; the target element is represented by its bounding box), the two views of
  the current colour, the background colour of the hidden proxy element, and the
  number of \<open>change\<close> events emitted so far.
\<close>

record picker =
  value_str :: string
  isOpen :: bool
  isMouseActive :: bool
  uiValues :: ColorPickerUI
  currentMouseTarget :: "DOMRect option"
  currentMouseParam :: "string option"
  currentRGBColor :: ColorRGBA64
  currentHSVColor :: ColorHSV
  proxyBackgroundColor :: string
  changeEvents :: nat

definition emit_change :: "picker \<Rightarrow> picker" where
  "emit_change st = st\<lparr>changeEvents := Suc (changeEvents st)\<rparr>"

definition updateUIValues :: "env \<Rightarrow> bool \<Rightarrow> picker \<Rightarrow> picker" where
  "updateUIValues E updateValue st =
     (let st1 = st\<lparr>uiValues := new_ColorPickerUI E (currentRGBColor st) (currentHSVColor st)\<rparr>
      in if updateValue
         then emit_change
                (st1\<lparr>value_str :=
                       (if js_neq (rgba_a (currentRGBColor st1)) (Fin 1)
                        then toStringWebRGBA E (currentRGBColor st1)
                        else toStringHexRGB E (currentRGBColor st1))\<rparr>)
         else st1)"

definition isValideRGB :: "jsnum \<Rightarrow> bool" where
  "isValideRGB val = (js_ge val (Fin 0) \<and> js_le val (Fin 255))"

definition isValideAlpha :: "jsnum \<Rightarrow> bool" where
  "isValideAlpha val = (js_ge val (Fin 0) \<and> js_le val (Fin 100))"

definition isValideSatVal :: "jsnum \<Rightarrow> bool" where
  "isValideSatVal val = (js_ge val (Fin 0) \<and> js_le val (Fin 100))"

definition isValideHue :: "jsnum \<Rightarrow> bool" where
  "isValideHue val = (js_ge val (Fin 0) \<and> js_le val (Fin 359))"

text \<open>
  Assigning to \<open>proxy.style.backgroundColor\<close>: the empty string removes the property,
  a value the browser refuses leaves it as it is, any other value is stored.
\<close>

definition set_backgroundColor :: "env \<Rightarrow> string \<Rightarrow> picker \<Rightarrow> picker" where
  "set_backgroundColor E v st =
     (if v = [] then st\<lparr>proxyBackgroundColor := []\<rparr>
      else case cssBackgroundColor E v of
             None \<Rightarrow> st
           | Some c \<Rightarrow> st\<lparr>proxyBackgroundColor := c\<rparr>)"

definition isValideCSSColor :: "env \<Rightarrow> string \<Rightarrow> picker \<Rightarrow> bool \<times> picker" where
  "isValideCSSColor E testValue st =
     (let st1 = set_backgroundColor E [] st;
          st2 = set_backgroundColor E testValue st1
      in (proxyBackgroundColor st2 \<noteq> [], st2))"

definition updateHSV :: "env \<Rightarrow> jsnum \<Rightarrow> jsnum \<Rightarrow> jsnum \<Rightarrow> picker \<Rightarrow> picker" where
  "updateHSV E hue sat val st =
     (let st1 = st\<lparr>currentHSVColor := ColorHSV hue sat val\<rparr>;
          st2 = st1\<lparr>currentRGBColor :=
                      hsvToRGB E (currentHSVColor st1) (rgba_a (currentRGBColor st1))\<rparr>
      in updateUIValues E True st2)"

text \<open>The two clamping steps applied to an offset: first to the size, then to 0.\<close>

definition clamp_offset :: "jsnum \<Rightarrow> jsnum \<Rightarrow> jsnum" where
  "clamp_offset x width =
     (let x1 = (if js_gt x width then width else x)
      in if js_lt x1 (Fin 0) then Fin 0 else x1)"

text \<open>
  \<open>updateFromMouseEvent\<close>. Without a target the call of \<open>getBoundingClientRect\<close> on
  null raises a TypeError. The two clamps of \<open>x\<close> do not involve \<open>y\<close> and conversely,
  so they are applied to each coordinate in turn.
\<close>

definition updateFromMouseEvent :: "env \<Rightarrow> jsnum \<Rightarrow> jsnum \<Rightarrow> picker \<Rightarrow> error + picker" where
  "updateFromMouseEvent E pageX pageY st =
     (case currentMouseTarget st of
        None \<Rightarrow> Inl TypeError
      | Some pos \<Rightarrow>
          (let width = rect_width pos;
               height = rect_height pos;
               x = clamp_offset (js_sub pageX (rect_left pos)) width;
               y = clamp_offset (js_sub pageY (rect_top pos)) height
           in if currentMouseParam st = Some ''h'' then
                (let hue = js_div (js_mul (Fin 359) x) width
                 in Inr (updateHSV E hue (hsv_s (currentHSVColor st)) (hsv_v (currentHSVColor st)) st))
              else if currentMouseParam st = Some ''sv'' then
                (let val = js_div (js_round (js_sub (Fin 100) (js_div (js_mul y (Fin 100)) height))) (Fin 100);
                     saturation = js_div (js_round (js_div (js_mul x (Fin 100)) width)) (Fin 100)
                 in Inr (updateHSV E (hsv_h (currentHSVColor st)) saturation val st))
              else if currentMouseParam st = Some ''a'' then
                (let alpha = js_div (js_round (js_div (js_mul x (Fin 100)) width)) (Fin 100);
                     st1 = st\<lparr>currentRGBColor :=
                                 new_ColorRGBA64 (rgba_r (currentRGBColor st)) (rgba_g (currentRGBColor st))
                                   (rgba_b (currentRGBColor st)) (Some alpha)\<rparr>
                 in Inr (updateUIValues E True st1))
              else Inr st))"

text \<open>
  \<open>connectedCallback\<close>. The callback of the base class, which is not among the sources,
  runs first; the state given here is the one it leaves, with the form value in place.
  The colour \<open>parseColor\<close> returns is stored unchecked; when it
  is null, \<open>rgbToHSV\<close> is handed null and reads its channels, and the constructor of
  the snapshot reads \<open>RGBColor.a\<close> in any case: a TypeError, and the rest of the
  callback does not run. Setting the attribute of the proxy and the queued focus act on
  the document only.
\<close>

definition connectedCallback :: "env \<Rightarrow> picker \<Rightarrow> error + picker" where
  "connectedCallback E st =
     (let st1 = st\<lparr>isOpen := False\<rparr>
      in if \<not> isNullOrWhiteSpace (value_str st1) then
           (case parseColor E (value_str st1) of
              None \<Rightarrow> Inl TypeError
            | Some c \<Rightarrow>
                Inr (updateUIValues E False
                       (st1\<lparr>currentRGBColor := c, currentHSVColor := rgbToHSV E c\<rparr>)))
         else
           (let c = new_ColorRGBA64 (Fin 1) (Fin 0) (Fin 0) (Some (Fin 1))
            in Inr (updateUIValues E False
                      (st1\<lparr>currentRGBColor := c, currentHSVColor := rgbToHSV E c\<rparr>))))"

definition handleFocus :: "picker \<Rightarrow> picker" where
  "handleFocus st = st\<lparr>isOpen := True\<rparr>"

definition handleBlur :: "picker \<Rightarrow> picker" where
  "handleBlur st = st\<lparr>isOpen := False\<rparr>"

text \<open>\<open>handleTextInput\<close>; the argument is \<open>control.value\<close>, the text of the field.\<close>

definition handleTextInput :: "env \<Rightarrow> string \<Rightarrow> picker \<Rightarrow> error + picker" where
  "handleTextInput E controlValue st =
     (let st1 = st\<lparr>value_str := controlValue\<rparr>;
          (valid, st2) = isValideCSSColor E (value_str st1) st1
      in if valid then
           (case parseColor E (value_str st2) of
              None \<Rightarrow> Inl TypeError
            | Some c \<Rightarrow>
                Inr (emit_change
                       (updateUIValues E False
                          (st2\<lparr>currentRGBColor := c, currentHSVColor := rgbToHSV E c\<rparr>))))
         else Inr st2)"

text \<open>
  The three mouse handlers; the arguments are the element the event started on (for
  \<open>handleMouseDown\<close>) and the page coordinates of the event.
\<close>

definition handleMouseDown :: "env \<Rightarrow> string \<Rightarrow> DOMRect \<Rightarrow> jsnum \<Rightarrow> jsnum \<Rightarrow> picker \<Rightarrow> error + picker" where
  "handleMouseDown E param target pageX pageY st =
     (let st1 = st\<lparr>currentMouseTarget := Some target, currentMouseParam := Some param\<rparr>
      in case updateFromMouseEvent E pageX pageY st1 of
           Inl e \<Rightarrow> Inl e
         | Inr st2 \<Rightarrow> Inr (st2\<lparr>isMouseActive := True\<rparr>))"

definition handleMouseMove :: "env \<Rightarrow> jsnum \<Rightarrow> jsnum \<Rightarrow> picker \<Rightarrow> error + picker" where
  "handleMouseMove E pageX pageY st = updateFromMouseEvent E pageX pageY st"

definition handleMouseUp :: "env \<Rightarrow> jsnum \<Rightarrow> jsnum \<Rightarrow> picker \<Rightarrow> error + picker" where
  "handleMouseUp E pageX pageY st =
     (case updateFromMouseEvent E pageX pageY st of
        Inl e \<Rightarrow> Inl e
      | Inr st1 \<Rightarrow>
          Inr (st1\<lparr>currentMouseTarget := None, currentMouseParam := None,
                    isMouseActive := False\<rparr>))"

text \<open>\<open>handleTextValueInput\<close>; the second argument is the text of the edited field.\<close>

definition handleTextValueInput :: "env \<Rightarrow> string \<Rightarrow> string \<Rightarrow> picker \<Rightarrow> picker" where
  "handleTextValueInput E param inputVal st =
     (if isNullOrWhiteSpace inputVal \<or> Number_isNaN_string inputVal then st
      else
        (let newVal = parseInt inputVal
         in if param \<in> set [''r'', ''g'', ''b'', ''a''] then
              (if (param \<noteq> ''a'' \<and> isValideRGB newVal) \<or> (param = ''a'' \<and> isValideAlpha newVal) then
                 (let st1 = st\<lparr>currentRGBColor :=
                               new_ColorRGBA64
                                 (if param = ''r'' then js_div newVal (Fin 255) else rgba_r (currentRGBColor st))
                                 (if param = ''g'' then js_div newVal (Fin 255) else rgba_g (currentRGBColor st))
                                 (if param = ''b'' then js_div newVal (Fin 255) else rgba_b (currentRGBColor st))
                                 (Some (if param = ''a'' then js_div newVal (Fin 100)
                                        else rgba_a (currentRGBColor st)))\<rparr>;
                      st2 = st1\<lparr>currentHSVColor := rgbToHSV E (currentRGBColor st1)\<rparr>
                  in updateUIValues E True st2)
               else st)
            else if param \<in> set [''h'', ''s'', ''v''] then
              (if (param \<noteq> ''h'' \<and> isValideSatVal newVal) \<or> (param = ''h'' \<and> isValideHue newVal) then
                 updateHSV E
                   (if param = ''h'' then newVal else hsv_h (currentHSVColor st))
                   (if param = ''s'' then js_div newVal (Fin 100) else hsv_s (currentHSVColor st))
                   (if param = ''v'' then js_div newVal (Fin 100) else hsv_v (currentHSVColor st))
                   st
               else st)
            else st))"

definition handleChange :: "picker \<Rightarrow> picker" where
  "handleChange st = emit_change st"

section \<open>A sample of the collaborators\<close>

text \<open>
  To evaluate the picker at concrete inputs the parameters need values. The sample
  below is not the colour library: it has the textbook conversions between RGB and HSV
  on finite channels, serialisers for whole bytes and whole percents, a parser of
  six-digit hexadecimal colours and of the name \<open>red\<close>, and a browser that accepts
  these colours and the one colour \<open>hsl(0, 100%, 50%)\<close>, which the parser does not
  read.
\<close>

definition sample_digit :: "nat \<Rightarrow> char" where
  "sample_digit n = ''0123456789abcdef'' ! n"

definition sample_byte :: "jsnum \<Rightarrow> nat" where
  "sample_byte x = (case x of Fin q \<Rightarrow> nat (min 255 (max 0 \<lfloor>q * 255 + 1 / 2\<rfloor>)) | _ \<Rightarrow> 0)"

definition sample_hex2 :: "nat \<Rightarrow> string" where
  "sample_hex2 n = [sample_digit (n div 16), sample_digit (n mod 16)]"

definition sample_dec :: "nat \<Rightarrow> string" where
  "sample_dec n =
     (if 100 \<le> n then [sample_digit (n div 100), sample_digit (n div 10 mod 10), sample_digit (n mod 10)]
      else if 10 \<le> n then [sample_digit (n div 10), sample_digit (n mod 10)]
      else [sample_digit n])"

definition sample_alpha :: "jsnum \<Rightarrow> string" where
  "sample_alpha x =
     (case x of
        Fin q \<Rightarrow>
          (let k = nat (min 100 (max 0 \<lfloor>q * 100 + 1 / 2\<rfloor>))
           in if k = 100 then ''1'' else if k = 0 then ''0''
              else ''0.'' @ [sample_digit (k div 10)] @ (if k mod 10 = 0 then [] else [sample_digit (k mod 10)]))
      | _ \<Rightarrow> ''NaN'')"

definition sample_toStringHexRGB :: "ColorRGBA64 \<Rightarrow> string" where
  "sample_toStringHexRGB c =
     ''#'' @ sample_hex2 (sample_byte (rgba_r c)) @ sample_hex2 (sample_byte (rgba_g c))
       @ sample_hex2 (sample_byte (rgba_b c))"

definition sample_toStringWebRGBA :: "ColorRGBA64 \<Rightarrow> string" where
  "sample_toStringWebRGBA c =
     ''rgba('' @ sample_dec (sample_byte (rgba_r c)) @ '','' @ sample_dec (sample_byte (rgba_g c))
       @ '','' @ sample_dec (sample_byte (rgba_b c)) @ '','' @ sample_alpha (rgba_a c) @ '')''"

fun sample_hsvToRGB :: "ColorHSV \<Rightarrow> jsnum \<Rightarrow> ColorRGBA64" where
  "sample_hsvToRGB (ColorHSV (Fin h) (Fin s) (Fin v)) alpha =
     (let c = s * v;
          k = h / 60;
          x = c * (1 - \<bar>k - 2 * of_int \<lfloor>k / 2\<rfloor> - 1\<bar>);
          m = v - c;
          r = (if h < 60 then c else if h < 120 then x else if h < 240 then 0 else if h < 300 then x else c);
          g = (if h < 60 then x else if h < 180 then c else if h < 240 then x else 0);
          b = (if h < 120 then 0 else if h < 180 then x else if h < 300 then c else x)
      in ColorRGBA64 (Fin (r + m)) (Fin (g + m)) (Fin (b + m)) alpha)"
| "sample_hsvToRGB hsv alpha = ColorRGBA64 NaN NaN NaN alpha"

fun sample_rgbToHSV :: "ColorRGBA64 \<Rightarrow> ColorHSV" where
  "sample_rgbToHSV (ColorRGBA64 (Fin r) (Fin g) (Fin b) alpha) =
     (let hi = max r (max g b);
          lo = min r (min g b);
          delta = hi - lo;
          hue = (if delta = 0 then 0
                 else if hi = r then 60 * ((g - b) / delta)
                 else if hi = g then 60 * ((b - r) / delta + 2)
                 else 60 * ((r - g) / delta + 4));
          hue1 = (if hue < 0 then hue + 360 else hue);
          sat = (if hi = 0 then 0 else delta / hi)
      in ColorHSV (Fin hue1) (Fin sat) (Fin hi))"
| "sample_rgbToHSV rgb = ColorHSV NaN NaN NaN"

definition sample_parseColor :: "string \<Rightarrow> ColorRGBA64 option" where
  "sample_parseColor raw =
     (if raw = ''red'' then Some (ColorRGBA64 (Fin 1) (Fin 0) (Fin 0) (Fin 1))
      else case raw of
        [c0, r1, r2, g1, g2, b1, b2] \<Rightarrow>
          (if c0 = CHR ''#'' \<and> list_all (isDigitOf 16) [r1, r2, g1, g2, b1, b2]
           then Some (ColorRGBA64
                        (Fin (of_nat (digitsValue 16 0 [r1, r2]) / 255))
                        (Fin (of_nat (digitsValue 16 0 [g1, g2]) / 255))
                        (Fin (of_nat (digitsValue 16 0 [b1, b2]) / 255))
                        (Fin 1))
           else None)
      | _ \<Rightarrow> None)"

definition sample_cssBackgroundColor :: "string \<Rightarrow> string option" where
  "sample_cssBackgroundColor v =
     (if v = ''hsl(0, 100%, 50%)'' then Some ''rgb(255, 0, 0)''
      else if v = ''red'' then Some ''red''
      else case sample_parseColor v of
             None \<Rightarrow> None
           | Some c \<Rightarrow>
               Some (''rgb('' @ sample_dec (sample_byte (rgba_r c)) @ '', ''
                       @ sample_dec (sample_byte (rgba_g c)) @ '', ''
                       @ sample_dec (sample_byte (rgba_b c)) @ '')''))"

definition sample_env :: env where
  "sample_env =
     \<lparr> parseColor = sample_parseColor,
       rgbToHSV = sample_rgbToHSV,
       hsvToRGB = sample_hsvToRGB,
       toStringHexRGB = sample_toStringHexRGB,
       toStringWebRGBA = sample_toStringWebRGBA,
       cssBackgroundColor = sample_cssBackgroundColor \<rparr>"

text \<open>
  A picker as its field initialisers and an attachment with the value \<open>#ff0000\<close>
  leave it: opaque red, closed, no drag under way, nothing emitted.
\<close>

definition red_picker :: picker where
  "red_picker =
     \<lparr> value_str = ''#ff0000'',
       isOpen = False,
       isMouseActive = False,
       uiValues = \<lparr> RGBColor = ColorRGBA64 (Fin 1) (Fin 0) (Fin 0) (Fin 1),
                    HSVColor = ColorHSV (Fin 0) (Fin 1) (Fin 1),
                    HueCSSColor = ''#ff0000'',
                    HuePosition = Fin 0,
                    SatValTopPos = Fin 0,
                    SatValLeftPos = Fin 100,
                    AlphaPos = Fin 100 \<rparr>,
       currentMouseTarget = None,
       currentMouseParam = None,
       currentRGBColor = ColorRGBA64 (Fin 1) (Fin 0) (Fin 0) (Fin 1),
       currentHSVColor = ColorHSV (Fin 0) (Fin 1) (Fin 1),
       proxyBackgroundColor = [],
       changeEvents = 0 \<rparr>"

text \<open>The red picker with a drag under way in the given zone over the given box.\<close>

definition dragging :: "string \<Rightarrow> DOMRect \<Rightarrow> picker" where
  "dragging zone box = red_picker\<lparr>currentMouseTarget := Some box, currentMouseParam := Some zone\<rparr>"

definition sample_box :: DOMRect where
  "sample_box = DOMRect (Fin 10) (Fin 20) (Fin 200) (Fin 100)"

section \<open>Properties stated by the specification\<close>

text \<open>
  The legal range of each channel in the words of the specification: red, green and
  blue from 0 to 255, alpha, saturation and value from 0 to 100 (percent), hue from 0
  to 359. It is compared below with the four range tests of the source.
\<close>

definition channel_max :: "string \<Rightarrow> rat" where
  "channel_max param =
     (if param = ''h'' then 359
      else if param = ''a'' \<or> param = ''s'' \<or> param = ''v'' then 100
      else 255)"

definition legal_value :: "string \<Rightarrow> jsnum \<Rightarrow> bool" where
  "legal_value param n = (case n of Fin q \<Rightarrow> 0 \<le> q \<and> q \<le> channel_max param | _ \<Rightarrow> False)"

text \<open>
  The form value is the serialisation of the current colour: the hexadecimal form when
  alpha is 1, the functional RGBA form otherwise.
\<close>

definition text_of_colour :: "env \<Rightarrow> picker \<Rightarrow> bool" where
  "text_of_colour E st =
     (value_str st =
        (if rgba_a (currentRGBColor st) = Fin 1 then toStringHexRGB E (currentRGBColor st)
         else toStringWebRGBA E (currentRGBColor st)))"

section \<open>Arithmetic of the number model\<close>

lemma floor_rat_numeral_div [simp]:
  "\<lfloor>numeral a / numeral b :: rat\<rfloor> = numeral a div numeral b"
  by (metis floor_divide_of_int_eq of_int_numeral)

lemma floor_rat_neg_numeral_div [simp]:
  "\<lfloor>- (numeral a / numeral b) :: rat\<rfloor> = - numeral a div numeral b"
  by (metis divide_minus_left floor_divide_of_int_eq of_int_neg_numeral of_int_numeral)

lemma floor_rat_one_div [simp]:
  "\<lfloor>1 / numeral b :: rat\<rfloor> = 1 div numeral b"
  by (metis floor_divide_of_int_eq of_int_1 of_int_numeral)

lemma js_mul_commute: "js_mul x y = js_mul y x"
  by (cases x; cases y) (simp_all add: mult.commute)

lemma js_neq_one: "js_neq x (Fin 1) = (x \<noteq> Fin 1)"
  by (auto simp: js_neq_def)

lemma clamp_offset_Fin: "0 \<le> w \<Longrightarrow> clamp_offset (Fin x) (Fin w) = Fin (max 0 (min w x))"
  by (auto simp: clamp_offset_def js_gt_def Let_def max_def min_def)

lemma round_percent:
  fixes q :: rat
  assumes "0 \<le> q" and "q \<le> 100"
  shows "0 \<le> \<lfloor>q + 1 / 2\<rfloor> \<and> \<lfloor>q + 1 / 2\<rfloor> \<le> 100"
proof -
  have "0 \<le> q + 1 / 2" using assms by simp
  then have lo: "0 \<le> \<lfloor>q + 1 / 2\<rfloor>" by (simp add: zero_le_floor)
  have "q + 1 / 2 < of_int 101" using assms by simp
  then have "\<lfloor>q + 1 / 2\<rfloor> < 101" by (simp only: floor_less_iff)
  with lo show ?thesis by simp
qed

text \<open>
  An offset inside a box of positive size gives a whole number of percents, from 0 to
  100, both for the saturation and the alpha (first formula) and for the value (second
  formula).
\<close>

lemma whole_percent:
  assumes "0 < w" and "0 \<le> x" and "x \<le> w"
  shows "\<exists>k. 0 \<le> k \<and> k \<le> 100 \<and>
           js_div (js_round (js_div (js_mul (Fin 100) (Fin x)) (Fin w))) (Fin 100) =
             Fin (of_int k / 100)"
    and "\<exists>k. 0 \<le> k \<and> k \<le> 100 \<and>
           js_div (js_round (js_sub (Fin 100) (js_div (js_mul (Fin 100) (Fin x)) (Fin w)))) (Fin 100) =
             Fin (of_int k / 100)"
proof -
  let ?q = "100 * x / w"
  have q0: "0 \<le> ?q" using assms by simp
  have q1: "?q \<le> 100" using assms by (simp add: pos_divide_le_eq)
  from round_percent [OF q0 q1]
  show "\<exists>k. 0 \<le> k \<and> k \<le> 100 \<and>
           js_div (js_round (js_div (js_mul (Fin 100) (Fin x)) (Fin w))) (Fin 100) =
             Fin (of_int k / 100)"
    using assms by (intro exI [of _ "\<lfloor>?q + 1 / 2\<rfloor>"]) simp
  have "0 \<le> 100 - ?q" and "100 - ?q \<le> 100" using q0 q1 by simp_all
  from round_percent [OF this]
  show "\<exists>k. 0 \<le> k \<and> k \<le> 100 \<and>
           js_div (js_round (js_sub (Fin 100) (js_div (js_mul (Fin 100) (Fin x)) (Fin w)))) (Fin 100) =
             Fin (of_int k / 100)"
    using assms by (intro exI [of _ "\<lfloor>100 - ?q + 1 / 2\<rfloor>"]) simp
qed

text \<open>The definitions of the sample and of \<open>parseInt\<close>, for evaluation by the simplifier.\<close>

lemmas sample_defs =
  sample_env_def sample_parseColor_def sample_cssBackgroundColor_def sample_toStringHexRGB_def
  sample_toStringWebRGBA_def sample_alpha_def sample_dec_def sample_hex2_def sample_byte_def
  sample_digit_def isDigitOf_def digitValue_def

lemmas parseInt_defs = parseInt_def isWhiteSpaceChar_def isDigitOf_def digitValue_def

lemma sample_hsvToRGB_alpha: "rgba_a (sample_hsvToRGB c al) = al"
  by (cases "(c, al)" rule: sample_hsvToRGB.cases) (simp_all add: Let_def)

section \<open>The validity test\<close>

text \<open>
  \<open>isValideCSSColor\<close> clears the background colour of the proxy before trying the
  value, so its verdict does not depend on the state: a value is valid when it is not
  empty and the browser stores a non-empty colour for it.
\<close>

lemma isValideCSSColor_fst:
  "fst (isValideCSSColor E t st) =
     (t \<noteq> [] \<and> (case cssBackgroundColor E t of None \<Rightarrow> False | Some c \<Rightarrow> c \<noteq> []))"
  by (simp add: isValideCSSColor_def set_backgroundColor_def Let_def split: option.splits)

lemma isValideCSSColor_snd:
  "snd (isValideCSSColor E t st) =
     st\<lparr>proxyBackgroundColor :=
          (if t = [] then [] else case cssBackgroundColor E t of None \<Rightarrow> [] | Some c \<Rightarrow> c)\<rparr>"
  by (simp add: isValideCSSColor_def set_backgroundColor_def Let_def split: option.splits)

lemma isValideCSSColor_refused:
  "\<not> fst (isValideCSSColor E t st) \<Longrightarrow>
     snd (isValideCSSColor E t st') = st'\<lparr>proxyBackgroundColor := []\<rparr>"
  by (auto simp: isValideCSSColor_fst isValideCSSColor_snd split: option.splits)

lemma isValideCSSColor_state: "fst (isValideCSSColor E t st) = fst (isValideCSSColor E t st')"
  by (simp add: isValideCSSColor_fst)

section \<open>Editing the text field\<close>

text \<open>
  Claim C1, as amended. When the text of the field is not a valid CSS colour,
  \<open>handleTextInput\<close> stores that text as the value of the picker and clears the
  background colour of the hidden proxy; the current RGB and HSV colours, the UI
  snapshot, the drag state and the number of change events stay as they were, and
  nothing is raised. The empty string is never valid (\<open>isValideCSSColor_fst\<close>); a
  string of white space is invalid when the browser refuses it.
\<close>

theorem handleTextInput_invalid:
  "\<not> fst (isValideCSSColor E s st) \<Longrightarrow>
     handleTextInput E s st = Inr (st\<lparr>value_str := s, proxyBackgroundColor := []\<rparr>)"
proof -
  assume inv: "\<not> fst (isValideCSSColor E s st)"
  let ?st1 = "st\<lparr>value_str := s\<rparr>"
  from inv have a: "\<not> fst (isValideCSSColor E s ?st1)"
    using isValideCSSColor_state [of E s st ?st1] by simp
  from inv have b: "snd (isValideCSSColor E s ?st1) = ?st1\<lparr>proxyBackgroundColor := []\<rparr>"
    by (rule isValideCSSColor_refused)
  show ?thesis
    using a b by (simp add: handleTextInput_def case_prod_beta Let_def)
qed

text \<open>Three spaces typed into the red picker of the sample.\<close>

theorem handleTextInput_invalid_witness:
  "\<not> fst (isValideCSSColor sample_env ''   '' red_picker) \<and>
   handleTextInput sample_env ''   '' red_picker = Inr (red_picker\<lparr>value_str := ''   ''\<rparr>)"
proof -
  have h: "\<not> fst (isValideCSSColor sample_env ''   '' red_picker)"
    by (simp add: isValideCSSColor_fst sample_defs)
  show ?thesis
    using h handleTextInput_invalid [OF h] by (simp add: red_picker_def)
qed

text \<open>
  Claim C1, as stated, fails: typing \<open>not-a-color\<close> into the red picker of the sample
  is refused as a colour, and yet the value of the picker, which was \<open>#ff0000\<close>, is
  now \<open>not-a-color\<close>.
\<close>

theorem refused_text_overwrites_value:
  "\<not> fst (isValideCSSColor sample_env ''not-a-color'' red_picker) \<and>
   handleTextInput sample_env ''not-a-color'' red_picker =
     Inr (red_picker\<lparr>value_str := ''not-a-color''\<rparr>) \<and>
   value_str red_picker = ''#ff0000''"
  by (simp add: handleTextInput_def isValideCSSColor_def set_backgroundColor_def red_picker_def
      sample_defs Let_def)

lemma handleTextInput_empty:
  "handleTextInput E [] st = Inr (st\<lparr>value_str := [], proxyBackgroundColor := []\<rparr>)"
  by (simp add: handleTextInput_def isValideCSSColor_def set_backgroundColor_def Let_def)

text \<open>
  A valid text that \<open>parseColor\<close> reads becomes the value as it was typed (the snapshot
  is recomputed with \<open>updateValue\<close> false, so no serialisation replaces it), the two
  colours and the snapshot follow it, and one change event is emitted.
\<close>

lemma handleTextInput_parsed:
  "fst (isValideCSSColor E s st) \<Longrightarrow> parseColor E s = Some c \<Longrightarrow>
     \<exists>st'. handleTextInput E s st = Inr st' \<and> value_str st' = s \<and>
            currentRGBColor st' = c \<and> currentHSVColor st' = rgbToHSV E c \<and>
            uiValues st' = new_ColorPickerUI E c (rgbToHSV E c) \<and>
            changeEvents st' = Suc (changeEvents st)"
  using isValideCSSColor_state [of E s st "st\<lparr>value_str := s\<rparr>"]
  by (simp add: handleTextInput_def case_prod_beta isValideCSSColor_snd updateUIValues_def
      emit_change_def Let_def)

text \<open>A valid text that \<open>parseColor\<close> does not read ends the handler with a TypeError.\<close>

lemma handleTextInput_null:
  "fst (isValideCSSColor E s st) \<Longrightarrow> parseColor E s = None \<Longrightarrow>
     handleTextInput E s st = Inl TypeError"
  using isValideCSSColor_state [of E s st "st\<lparr>value_str := s\<rparr>"]
  by (simp add: handleTextInput_def case_prod_beta isValideCSSColor_snd Let_def)

text \<open>
  Claim C10 at the input \<open>hsl(0, 100%, 50%)\<close>: the browser of the sample accepts it as
  a colour, \<open>parseColor\<close> returns null for it, and \<open>handleTextInput\<close> ends with a
  TypeError before any change event is emitted.
\<close>

theorem valid_text_unparsed:
  "fst (isValideCSSColor sample_env ''hsl(0, 100%, 50%)'' red_picker) \<and>
   parseColor sample_env ''hsl(0, 100%, 50%)'' = None \<and>
   handleTextInput sample_env ''hsl(0, 100%, 50%)'' red_picker = Inl TypeError"
  by (simp add: handleTextInput_def isValideCSSColor_def set_backgroundColor_def red_picker_def
      sample_defs Let_def)

section \<open>Attaching the picker\<close>

lemma connectedCallback_blank:
  "isNullOrWhiteSpace (value_str st) \<Longrightarrow>
     connectedCallback E st =
       Inr (st\<lparr>isOpen := False,
               currentRGBColor := ColorRGBA64 (Fin 1) (Fin 0) (Fin 0) (Fin 1),
               currentHSVColor := rgbToHSV E (ColorRGBA64 (Fin 1) (Fin 0) (Fin 0) (Fin 1)),
               uiValues := new_ColorPickerUI E (ColorRGBA64 (Fin 1) (Fin 0) (Fin 0) (Fin 1))
                             (rgbToHSV E (ColorRGBA64 (Fin 1) (Fin 0) (Fin 0) (Fin 1)))\<rparr>)"
  by (simp add: connectedCallback_def updateUIValues_def new_ColorRGBA64_def Let_def)

lemma connectedCallback_parsed:
  "\<not> isNullOrWhiteSpace (value_str st) \<Longrightarrow> parseColor E (value_str st) = Some c \<Longrightarrow>
     connectedCallback E st =
       Inr (st\<lparr>isOpen := False, currentRGBColor := c, currentHSVColor := rgbToHSV E c,
               uiValues := new_ColorPickerUI E c (rgbToHSV E c)\<rparr>)"
  by (simp add: connectedCallback_def updateUIValues_def Let_def)

lemma connectedCallback_null:
  "\<not> isNullOrWhiteSpace (value_str st) \<Longrightarrow> parseColor E (value_str st) = None \<Longrightarrow>
     connectedCallback E st = Inl TypeError"
  by (simp add: connectedCallback_def Let_def)

text \<open>The red picker is what attaching with the value \<open>#ff0000\<close> gives.\<close>

lemma connectedCallback_red_picker: "connectedCallback sample_env red_picker = Inr red_picker"
  by (simp add: connectedCallback_def updateUIValues_def new_ColorPickerUI_def new_ColorRGBA64_def
      isNullOrWhiteSpace_def isWhiteSpaceChar_def red_picker_def sample_defs Let_def)

text \<open>
  Claim C2 at the initial value \<open>not-a-color\<close>: it is not blank and not a valid colour,
  and \<open>connectedCallback\<close> ends with a TypeError instead of taking opaque red. (A blank
  value gives opaque red and a value \<open>parseColor\<close> reads gives its colour, both with
  the HSV colour and the snapshot derived and no change event:
  \<open>connectedCallback_blank\<close>, \<open>connectedCallback_parsed\<close>.)
\<close>

theorem attach_invalid_value:
  "\<not> isNullOrWhiteSpace ''not-a-color'' \<and>
   \<not> fst (isValideCSSColor sample_env ''not-a-color'' red_picker) \<and>
   connectedCallback sample_env (red_picker\<lparr>value_str := ''not-a-color''\<rparr>) = Inl TypeError"
  by (simp add: connectedCallback_def isNullOrWhiteSpace_def isWhiteSpaceChar_def
      isValideCSSColor_fst red_picker_def sample_defs Let_def)

section \<open>Editing a numeric field\<close>

lemma changeEvents_updateUIValues:
  "changeEvents (updateUIValues E u st) = (if u then Suc (changeEvents st) else changeEvents st)"
  by (simp add: updateUIValues_def emit_change_def Let_def)

lemma changeEvents_updateHSV: "changeEvents (updateHSV E hue sat val st) = Suc (changeEvents st)"
  by (simp add: updateHSV_def changeEvents_updateUIValues Let_def)

text \<open>The four range tests of the source are the ranges of the specification.\<close>

lemma legal_value_channel:
  "legal_value ''r'' n = isValideRGB n"
  "legal_value ''g'' n = isValideRGB n"
  "legal_value ''b'' n = isValideRGB n"
  "legal_value ''a'' n = isValideAlpha n"
  "legal_value ''h'' n = isValideHue n"
  "legal_value ''s'' n = isValideSatVal n"
  "legal_value ''v'' n = isValideSatVal n"
  by (cases n; simp add: legal_value_def channel_max_def isValideRGB_def isValideAlpha_def
      isValideHue_def isValideSatVal_def js_ge_def)+

lemma channel_cases:
  assumes "param \<in> set [''r'', ''g'', ''b'', ''a'', ''h'', ''s'', ''v'']"
  obtains "param = ''r''" | "param = ''g''" | "param = ''b''" | "param = ''a''"
    | "param = ''h''" | "param = ''s''" | "param = ''v''"
  using assms by auto

lemma handleTextValueInput_changeEvents:
  assumes "param \<in> set [''r'', ''g'', ''b'', ''a'', ''h'', ''s'', ''v'']"
  shows "changeEvents (handleTextValueInput E param inputVal st) =
           (if isNullOrWhiteSpace inputVal \<or> \<not> legal_value param (parseInt inputVal)
            then changeEvents st else Suc (changeEvents st))"
  using assms
  by (cases rule: channel_cases)
    (simp_all add: handleTextValueInput_def Number_isNaN_string_def legal_value_channel
      changeEvents_updateUIValues changeEvents_updateHSV Let_def)

lemma handleTextValueInput_rejects:
  assumes "param \<in> set [''r'', ''g'', ''b'', ''a'', ''h'', ''s'', ''v'']"
    and "isNullOrWhiteSpace inputVal \<or> \<not> legal_value param (parseInt inputVal)"
  shows "handleTextValueInput E param inputVal st = st"
  using assms
  by (cases rule: channel_cases)
    (auto simp add: handleTextValueInput_def Number_isNaN_string_def legal_value_channel Let_def)

lemma handleTextValueInput_other:
  "param \<notin> set [''r'', ''g'', ''b'', ''a'', ''h'', ''s'', ''v''] \<Longrightarrow>
     handleTextValueInput E param inputVal st = st"
  by (simp add: handleTextValueInput_def Let_def)

text \<open>
  What the handler does: for each of the seven channels, an edit changes nothing and
  emits nothing exactly when the text is blank or \<open>parseInt\<close> gives for it no number of
  the legal range of the channel (NaN, when the text does not start with a digit, is
  in no range).
\<close>

lemma handleTextValueInput_noop_iff:
  assumes "param \<in> set [''r'', ''g'', ''b'', ''a'', ''h'', ''s'', ''v'']"
  shows "(handleTextValueInput E param inputVal st = st) =
           (isNullOrWhiteSpace inputVal \<or> \<not> legal_value param (parseInt inputVal))"
proof
  assume "handleTextValueInput E param inputVal st = st"
  then have "changeEvents (handleTextValueInput E param inputVal st) = changeEvents st" by simp
  then show "isNullOrWhiteSpace inputVal \<or> \<not> legal_value param (parseInt inputVal)"
    using handleTextValueInput_changeEvents [OF assms, of E inputVal st] by (simp split: if_splits)
next
  assume "isNullOrWhiteSpace inputVal \<or> \<not> legal_value param (parseInt inputVal)"
  then show "handleTextValueInput E param inputVal st = st"
    by (rule handleTextValueInput_rejects [OF assms])
qed

text \<open>The bounds named by the specification: hue 359 is taken, hue 360, red 256 and red -1 are not.\<close>

lemma handleTextValueInput_bounds:
  "changeEvents (handleTextValueInput E ''h'' ''359'' st) = Suc (changeEvents st)"
  "hsv_h (currentHSVColor (handleTextValueInput E ''h'' ''359'' st)) = Fin 359"
  "handleTextValueInput E ''h'' ''360'' st = st"
  "handleTextValueInput E ''r'' ''256'' st = st"
  "handleTextValueInput E ''r'' ''-1'' st = st"
  by (simp_all add: handleTextValueInput_def Number_isNaN_string_def isNullOrWhiteSpace_def parseInt_defs
      isValideRGB_def isValideHue_def js_ge_def updateHSV_def updateUIValues_def emit_change_def Let_def)

text \<open>
  Claim C3 at the input \<open>12abc\<close> for the red channel: the text is not blank and not
  numeric, the test \<open>Number.isNaN\<close> lets it through, \<open>parseInt\<close> reads 12 from it, and
  the edit is taken: red becomes 12/255 and a change event is emitted, in every state.
\<close>

theorem numeric_prefix_accepted:
  "\<not> isNullOrWhiteSpace ''12abc'' \<and> \<not> Number_isNaN_string ''12abc'' \<and> parseInt ''12abc'' = Fin 12 \<and>
   changeEvents (handleTextValueInput E ''r'' ''12abc'' st) = Suc (changeEvents st) \<and>
   rgba_r (currentRGBColor (handleTextValueInput E ''r'' ''12abc'' st)) = Fin (12 / 255)"
  by (simp add: handleTextValueInput_def Number_isNaN_string_def isNullOrWhiteSpace_def parseInt_defs
      isValideRGB_def js_ge_def updateUIValues_def emit_change_def new_ColorRGBA64_def Let_def)

section \<open>The text of a committed colour\<close>

lemma text_of_colour_updateUIValues: "text_of_colour E (updateUIValues E True st)"
  by (simp add: text_of_colour_def updateUIValues_def emit_change_def js_neq_one Let_def)

lemma text_of_colour_updateHSV: "text_of_colour E (updateHSV E hue sat val st)"
  by (simp add: updateHSV_def Let_def text_of_colour_updateUIValues)

lemma text_of_colour_handleTextValueInput:
  assumes "handleTextValueInput E param inputVal st \<noteq> st"
  shows "text_of_colour E (handleTextValueInput E param inputVal st)"
proof (cases "param \<in> set [''r'', ''g'', ''b'', ''a'', ''h'', ''s'', ''v'']")
  case True
  then show ?thesis
    using assms
    by (cases rule: channel_cases)
      (simp_all add: handleTextValueInput_def Number_isNaN_string_def
        text_of_colour_updateUIValues text_of_colour_updateHSV Let_def split: if_splits)
next
  case False
  with assms show ?thesis
    using handleTextValueInput_other [of param E inputVal st] by simp
qed

lemma updateFromMouseEvent_cases:
  "updateFromMouseEvent E pageX pageY st = Inr st' \<Longrightarrow>
   currentMouseParam st \<in> {Some ''h'', Some ''sv'', Some ''a''} \<Longrightarrow>
     (\<exists>st1. st' = updateUIValues E True st1) \<or> (\<exists>hue sat val. st' = updateHSV E hue sat val st)"
  unfolding updateFromMouseEvent_def Let_def
  by (auto split: option.splits if_splits)

text \<open>
  Claim C4, as amended. After \<open>updateUIValues\<close> with \<open>updateValue\<close> true, so after
  every edit of a numeric field that is taken and after every update of a drag in one
  of the three zones, the form value is the serialisation of the current colour:
  hexadecimal when its alpha is 1, functional RGBA otherwise. (An edit of the text
  field is not among them: it calls \<open>updateUIValues\<close> with \<open>updateValue\<close> false.)
\<close>

theorem committed_text_value:
  "text_of_colour E (updateUIValues E True st) \<and>
   (handleTextValueInput E param inputVal st \<noteq> st \<longrightarrow>
      text_of_colour E (handleTextValueInput E param inputVal st)) \<and>
   (updateFromMouseEvent E pageX pageY st = Inr st' \<and>
    currentMouseParam st \<in> {Some ''h'', Some ''sv'', Some ''a''} \<longrightarrow> text_of_colour E st')"
proof (intro conjI impI)
  show "text_of_colour E (updateUIValues E True st)"
    by (rule text_of_colour_updateUIValues)
next
  assume "handleTextValueInput E param inputVal st \<noteq> st"
  then show "text_of_colour E (handleTextValueInput E param inputVal st)"
    by (rule text_of_colour_handleTextValueInput)
next
  assume "updateFromMouseEvent E pageX pageY st = Inr st' \<and>
    currentMouseParam st \<in> {Some ''h'', Some ''sv'', Some ''a''}"
  then show "text_of_colour E st'"
    using updateFromMouseEvent_cases [of E pageX pageY st st']
    by (auto simp: text_of_colour_updateUIValues text_of_colour_updateHSV)
qed

text \<open>
  In the sample: alpha set to 50 percent in its field gives the functional form, and a
  drag over the hue bar gives a colour whose text is its serialisation.
\<close>

theorem committed_text_value_witness:
  "handleTextValueInput sample_env ''a'' ''50'' (dragging ''h'' sample_box) \<noteq> dragging ''h'' sample_box \<and>
   text_of_colour sample_env (handleTextValueInput sample_env ''a'' ''50'' (dragging ''h'' sample_box)) \<and>
   value_str (handleTextValueInput sample_env ''a'' ''50'' (dragging ''h'' sample_box)) =
     ''rgba(255,0,0,0.5)'' \<and>
   updateFromMouseEvent sample_env (Fin 77) (Fin 53) (dragging ''h'' sample_box) =
     Inr (updateHSV sample_env (Fin (24053 / 200)) (Fin 1) (Fin 1) (dragging ''h'' sample_box)) \<and>
   text_of_colour sample_env
     (updateHSV sample_env (Fin (24053 / 200)) (Fin 1) (Fin 1) (dragging ''h'' sample_box))"
proof -
  have a: "handleTextValueInput sample_env ''a'' ''50'' (dragging ''h'' sample_box) \<noteq>
      dragging ''h'' sample_box"
    using handleTextValueInput_changeEvents [of "''a''" sample_env "''50''" "dragging ''h'' sample_box"]
    by (auto simp: legal_value_def channel_max_def isNullOrWhiteSpace_def parseInt_defs)
  have b: "updateFromMouseEvent sample_env (Fin 77) (Fin 53) (dragging ''h'' sample_box) =
     Inr (updateHSV sample_env (Fin (24053 / 200)) (Fin 1) (Fin 1) (dragging ''h'' sample_box))"
    by (simp add: updateFromMouseEvent_def clamp_offset_def js_gt_def Let_def dragging_def
        sample_box_def red_picker_def)
  have c: "currentMouseParam (dragging ''h'' sample_box) \<in> {Some ''h'', Some ''sv'', Some ''a''}"
    by (simp add: dragging_def)
  have d: "value_str (handleTextValueInput sample_env ''a'' ''50'' (dragging ''h'' sample_box)) =
      ''rgba(255,0,0,0.5)''"
    by (simp add: handleTextValueInput_def Number_isNaN_string_def isNullOrWhiteSpace_def parseInt_defs
        isValideAlpha_def js_ge_def updateUIValues_def emit_change_def js_neq_one new_ColorRGBA64_def
        Let_def dragging_def red_picker_def sample_defs)
  show ?thesis
    using a b c d
      committed_text_value [of sample_env "dragging ''h'' sample_box" "''a''" "''50''" "Fin 77" "Fin 53"
        "updateHSV sample_env (Fin (24053 / 200)) (Fin 1) (Fin 1) (dragging ''h'' sample_box)"]
    by simp
qed

text \<open>
  Claim C4, as stated, fails for an edit of the text field: typing \<open>red\<close> into the red
  picker of the sample is a committed edit, one change event is emitted, the colour it
  produces has alpha 1 and the hexadecimal form \<open>#ff0000\<close>, and the form value is
  \<open>red\<close>.
\<close>

theorem typed_text_not_serialised:
  "handleTextInput sample_env ''red'' red_picker =
     Inr (red_picker\<lparr>value_str := ''red'', proxyBackgroundColor := ''red'', changeEvents := 1\<rparr>) \<and>
   rgba_a (currentRGBColor red_picker) = Fin 1 \<and>
   toStringHexRGB sample_env (currentRGBColor red_picker) = ''#ff0000'' \<and>
   \<not> text_of_colour sample_env
       (red_picker\<lparr>value_str := ''red'', proxyBackgroundColor := ''red'', changeEvents := 1\<rparr>)"
  by (simp add: handleTextInput_def isValideCSSColor_def set_backgroundColor_def updateUIValues_def
      new_ColorPickerUI_def emit_change_def text_of_colour_def red_picker_def sample_defs Let_def)

section \<open>Dragging\<close>

text \<open>
  Claim C5. During a drag over the saturation-value square, with \<open>x\<close> and \<open>y\<close> the
  clamped offsets of the pointer in the box of the target, the new HSV colour keeps the
  hue and has saturation \<open>round(100 x / width) / 100\<close> and value
  \<open>round(100 - 100 y / height) / 100\<close>; the RGB colour is derived from it with the
  current alpha, the snapshot is recomputed from both, the form value is the
  serialisation of the new colour, and one change event is emitted. (For a box of
  positive size both are whole percents: \<open>whole_percent\<close>.)
\<close>

theorem updateFromMouseEvent_sv:
  assumes "currentMouseTarget st = Some pos" and "currentMouseParam st = Some ''sv''"
  shows "let x = clamp_offset (js_sub pageX (rect_left pos)) (rect_width pos);
             y = clamp_offset (js_sub pageY (rect_top pos)) (rect_height pos);
             hsv = ColorHSV (hsv_h (currentHSVColor st))
                     (js_div (js_round (js_div (js_mul (Fin 100) x) (rect_width pos))) (Fin 100))
                     (js_div (js_round (js_sub (Fin 100) (js_div (js_mul (Fin 100) y) (rect_height pos))))
                        (Fin 100));
             rgb = hsvToRGB E hsv (rgba_a (currentRGBColor st))
         in updateFromMouseEvent E pageX pageY st =
              Inr (st\<lparr>currentHSVColor := hsv,
                      currentRGBColor := rgb,
                      uiValues := new_ColorPickerUI E rgb hsv,
                      value_str := (if rgba_a rgb = Fin 1 then toStringHexRGB E rgb
                                    else toStringWebRGBA E rgb),
                      changeEvents := Suc (changeEvents st)\<rparr>)"
  using assms
  by (simp add: updateFromMouseEvent_def updateHSV_def updateUIValues_def emit_change_def
      js_neq_one Let_def js_mul_commute [of "Fin 100"])

text \<open>The pointer at (77, 53) over the sample box: saturation 34 percent, value 67 percent.\<close>

theorem updateFromMouseEvent_sv_witness:
  "currentMouseTarget (dragging ''sv'' sample_box) = Some sample_box \<and>
   currentMouseParam (dragging ''sv'' sample_box) = Some ''sv'' \<and>
   updateFromMouseEvent sample_env (Fin 77) (Fin 53) (dragging ''sv'' sample_box) =
     Inr ((dragging ''sv'' sample_box)
            \<lparr>currentHSVColor := ColorHSV (Fin 0) (Fin (34 / 100)) (Fin (67 / 100)),
             currentRGBColor := ColorRGBA64 (Fin (67 / 100)) (Fin (2211 / 5000)) (Fin (2211 / 5000)) (Fin 1),
             uiValues := new_ColorPickerUI sample_env
                           (ColorRGBA64 (Fin (67 / 100)) (Fin (2211 / 5000)) (Fin (2211 / 5000)) (Fin 1))
                           (ColorHSV (Fin 0) (Fin (34 / 100)) (Fin (67 / 100))),
             value_str := ''#ab7171'',
             changeEvents := 1\<rparr>)"
proof -
  have t: "currentMouseTarget (dragging ''sv'' sample_box) = Some sample_box"
    and p: "currentMouseParam (dragging ''sv'' sample_box) = Some ''sv''"
    by (simp_all add: dragging_def)
  show ?thesis
    using t p updateFromMouseEvent_sv [OF t p, of "Fin 77" "Fin 53" sample_env]
    by (simp add: Let_def sample_box_def clamp_offset_def js_gt_def dragging_def red_picker_def sample_defs)
qed

text \<open>
  Claim C6. During a drag over the alpha bar (the parameter \<open>a\<close> of the source) the new
  RGB colour is constructed from the red, green and blue of the current one, which it
  keeps, and the alpha \<open>round(100 x / width) / 100\<close>, with \<open>x\<close> the clamped offset,
  which it has whenever that is a number, as it is over a bar of positive width at a
  finite position (the constructor takes 1 for NaN); the HSV colour stays, the
  snapshot and the form value follow and one change event is emitted. In
  particular a mouse-down on an alpha bar of width 100, 25 to the right of its left
  edge and on its top edge, makes alpha 1/4 and the form value the functional RGBA form
  of the colour with that alpha. Percents that are not whole are rounded to the nearest
  one: 2 of a width 3 gives alpha 67/100, and 67 of a width 300 gives alpha 22/100.
\<close>

theorem updateFromMouseEvent_alpha:
  "(currentMouseTarget st = Some pos \<and> currentMouseParam st = Some ''a'' \<longrightarrow>
     (let x = clamp_offset (js_sub pageX (rect_left pos)) (rect_width pos);
          alpha = js_div (js_round (js_div (js_mul (Fin 100) x) (rect_width pos))) (Fin 100);
          rgb = new_ColorRGBA64 (rgba_r (currentRGBColor st)) (rgba_g (currentRGBColor st))
                  (rgba_b (currentRGBColor st)) (Some alpha)
      in updateFromMouseEvent E pageX pageY st =
           Inr (st\<lparr>currentRGBColor := rgb,
                   uiValues := new_ColorPickerUI E rgb (currentHSVColor st),
                   value_str := (if rgba_a rgb = Fin 1 then toStringHexRGB E rgb
                                 else toStringWebRGBA E rgb),
                   changeEvents := Suc (changeEvents st)\<rparr>) \<and>
         rgba_r rgb = rgba_r (currentRGBColor st) \<and>
         rgba_g rgb = rgba_g (currentRGBColor st) \<and>
         rgba_b rgb = rgba_b (currentRGBColor st) \<and>
         (alpha \<noteq> NaN \<longrightarrow> rgba_a rgb = alpha))) \<and>
   (0 < w \<longrightarrow>
      js_div (js_round (js_div (js_mul (Fin 100) (clamp_offset (js_sub (Fin px) (Fin l)) (Fin w)))
                          (Fin w))) (Fin 100) \<noteq> NaN) \<and>
   (let box = DOMRect (Fin l) (Fin t) (Fin 100) ht;
        rgb = ColorRGBA64 (rgba_r (currentRGBColor st)) (rgba_g (currentRGBColor st))
                (rgba_b (currentRGBColor st)) (Fin (25 / 100))
    in handleMouseDown E ''a'' box (Fin (l + 25)) (Fin t) st =
         Inr (st\<lparr>currentMouseTarget := Some box,
                 currentMouseParam := Some ''a'',
                 currentRGBColor := rgb,
                 uiValues := new_ColorPickerUI E rgb (currentHSVColor st),
                 value_str := toStringWebRGBA E rgb,
                 changeEvents := Suc (changeEvents st),
                 isMouseActive := True\<rparr>)) \<and>
   rgba_a (currentRGBColor (projr
     (handleMouseDown E ''a'' (DOMRect (Fin l) (Fin t) (Fin 3) ht) (Fin (l + 2)) pageY st))) =
       Fin (67 / 100) \<and>
   rgba_a (currentRGBColor (projr
     (handleMouseDown E ''a'' (DOMRect (Fin l) (Fin t) (Fin 300) ht) (Fin (l + 67)) pageY st))) =
       Fin (22 / 100)"
  by (simp add: handleMouseDown_def updateFromMouseEvent_def updateUIValues_def emit_change_def
      clamp_offset_def js_gt_def js_neq_one new_ColorRGBA64_def Let_def js_mul_commute [of "Fin 100"])

text \<open>
  A drag over an alpha bar of width 200 in the sample, 67 to the right of its left
  edge: 33.5 percent is rounded up to 34, and the form value is \<open>rgba(255,0,0,0.34)\<close>.
\<close>

theorem updateFromMouseEvent_alpha_witness:
  "currentMouseTarget (dragging ''a'' sample_box) = Some sample_box \<and>
   currentMouseParam (dragging ''a'' sample_box) = Some ''a'' \<and>
   updateFromMouseEvent sample_env (Fin 77) (Fin 53) (dragging ''a'' sample_box) =
     Inr ((dragging ''a'' sample_box)
            \<lparr>currentRGBColor := ColorRGBA64 (Fin 1) (Fin 0) (Fin 0) (Fin (34 / 100)),
             uiValues := (uiValues red_picker)
                \<lparr>RGBColor := ColorRGBA64 (Fin 1) (Fin 0) (Fin 0) (Fin (34 / 100)), AlphaPos := Fin 34\<rparr>,
             value_str := ''rgba(255,0,0,0.34)'',
             changeEvents := 1\<rparr>)"
proof -
  have h: "currentMouseTarget (dragging ''a'' sample_box) = Some sample_box \<and>
      currentMouseParam (dragging ''a'' sample_box) = Some ''a''"
    by (simp add: dragging_def)
  show ?thesis
    using h updateFromMouseEvent_alpha [of "dragging ''a'' sample_box" sample_box "Fin 77" sample_env
        "Fin 53", THEN conjunct1]
    by (simp add: Let_def new_ColorPickerUI_def new_ColorRGBA64_def clamp_offset_def js_gt_def
        dragging_def sample_box_def red_picker_def sample_defs)
qed

text \<open>
  Claim C7. Over a box with finite bounds and a positive size, at a finite pointer
  position, the update computes its colour from the offsets \<open>pageX - left\<close> clamped to
  \<open>[0, width]\<close> and \<open>pageY - top\<close> clamped to \<open>[0, height]\<close>, by the formulas of the three
  zones. So a pointer outside the box gives the colour of the edge: left of the box the
  hue, the saturation or the alpha is 0, right of it the saturation or the alpha is 1,
  above it the value is 1, below it the value is 0; and a pointer left of the box
  gives the very state of a pointer on its left edge.
\<close>

theorem updateFromMouseEvent_clamps:
  assumes "currentMouseTarget st = Some (DOMRect (Fin l) (Fin t) (Fin w) (Fin h))"
    and "0 < w" and "0 < h"
  shows "(let x = Fin (max 0 (min w (px - l)));
              y = Fin (max 0 (min h (py - t)));
              cur = currentHSVColor st;
              post = (\<lambda>hsv rgb.
                        st\<lparr>currentHSVColor := hsv,
                           currentRGBColor := rgb,
                           uiValues := new_ColorPickerUI E rgb hsv,
                           value_str := (if rgba_a rgb = Fin 1 then toStringHexRGB E rgb
                                         else toStringWebRGBA E rgb),
                           changeEvents := Suc (changeEvents st)\<rparr>);
              converted = (\<lambda>hsv. post hsv (hsvToRGB E hsv (rgba_a (currentRGBColor st))))
          in updateFromMouseEvent E (Fin px) (Fin py) st =
               (if currentMouseParam st = Some ''h'' then
                  Inr (converted (ColorHSV (js_div (js_mul (Fin 359) x) (Fin w)) (hsv_s cur) (hsv_v cur)))
                else if currentMouseParam st = Some ''sv'' then
                  Inr (converted
                         (ColorHSV (hsv_h cur)
                            (js_div (js_round (js_div (js_mul (Fin 100) x) (Fin w))) (Fin 100))
                            (js_div (js_round (js_sub (Fin 100) (js_div (js_mul (Fin 100) y) (Fin h))))
                               (Fin 100))))
                else if currentMouseParam st = Some ''a'' then
                  Inr (post cur
                         (new_ColorRGBA64 (rgba_r (currentRGBColor st)) (rgba_g (currentRGBColor st))
                            (rgba_b (currentRGBColor st))
                            (Some (js_div (js_round (js_div (js_mul (Fin 100) x) (Fin w))) (Fin 100)))))
                else Inr st)) \<and>
         (\<exists>st'. updateFromMouseEvent E (Fin px) (Fin py) st = Inr st' \<and>
            (currentMouseParam st = Some ''h'' \<and> px \<le> l \<longrightarrow> hsv_h (currentHSVColor st') = Fin 0) \<and>
            (currentMouseParam st = Some ''sv'' \<and> px \<le> l \<longrightarrow> hsv_s (currentHSVColor st') = Fin 0) \<and>
            (currentMouseParam st = Some ''sv'' \<and> l + w \<le> px \<longrightarrow> hsv_s (currentHSVColor st') = Fin 1) \<and>
            (currentMouseParam st = Some ''sv'' \<and> py \<le> t \<longrightarrow> hsv_v (currentHSVColor st') = Fin 1) \<and>
            (currentMouseParam st = Some ''sv'' \<and> t + h \<le> py \<longrightarrow> hsv_v (currentHSVColor st') = Fin 0) \<and>
            (currentMouseParam st = Some ''a'' \<and> px \<le> l \<longrightarrow> rgba_a (currentRGBColor st') = Fin 0) \<and>
            (currentMouseParam st = Some ''a'' \<and> l + w \<le> px \<longrightarrow> rgba_a (currentRGBColor st') = Fin 1)) \<and>
         (px \<le> l \<longrightarrow>
            updateFromMouseEvent E (Fin px) (Fin py) st = updateFromMouseEvent E (Fin l) (Fin py) st)"
proof (intro conjI)
  have w0: "0 \<le> w" and h0: "0 \<le> h" using assms by simp_all
  note clamp = clamp_offset_Fin [OF w0] clamp_offset_Fin [OF h0]
  show "let x = Fin (max 0 (min w (px - l)));
              y = Fin (max 0 (min h (py - t)));
              cur = currentHSVColor st;
              post = (\<lambda>hsv rgb.
                        st\<lparr>currentHSVColor := hsv,
                           currentRGBColor := rgb,
                           uiValues := new_ColorPickerUI E rgb hsv,
                           value_str := (if rgba_a rgb = Fin 1 then toStringHexRGB E rgb
                                         else toStringWebRGBA E rgb),
                           changeEvents := Suc (changeEvents st)\<rparr>);
              converted = (\<lambda>hsv. post hsv (hsvToRGB E hsv (rgba_a (currentRGBColor st))))
          in updateFromMouseEvent E (Fin px) (Fin py) st =
               (if currentMouseParam st = Some ''h'' then
                  Inr (converted (ColorHSV (js_div (js_mul (Fin 359) x) (Fin w)) (hsv_s cur) (hsv_v cur)))
                else if currentMouseParam st = Some ''sv'' then
                  Inr (converted
                         (ColorHSV (hsv_h cur)
                            (js_div (js_round (js_div (js_mul (Fin 100) x) (Fin w))) (Fin 100))
                            (js_div (js_round (js_sub (Fin 100) (js_div (js_mul (Fin 100) y) (Fin h))))
                               (Fin 100))))
                else if currentMouseParam st = Some ''a'' then
                  Inr (post cur
                         (new_ColorRGBA64 (rgba_r (currentRGBColor st)) (rgba_g (currentRGBColor st))
                            (rgba_b (currentRGBColor st))
                            (Some (js_div (js_round (js_div (js_mul (Fin 100) x) (Fin w))) (Fin 100)))))
                else Inr st)"
    using assms
    by (simp add: updateFromMouseEvent_def updateHSV_def updateUIValues_def emit_change_def
        js_neq_one Let_def clamp mult.commute)
  have left: "max 0 (min w (px - l)) = 0" if "px \<le> l"
    using that w0 by (simp add: max_def min_def)
  have right: "max 0 (min w (px - l)) = w" if "l + w \<le> px"
    using that w0 by (simp add: max_def min_def)
  have above: "max 0 (min h (py - t)) = 0" if "py \<le> t"
    using that h0 by (simp add: max_def min_def)
  have below: "max 0 (min h (py - t)) = h" if "t + h \<le> py"
    using that h0 by (simp add: max_def min_def)
  show "\<exists>st'. updateFromMouseEvent E (Fin px) (Fin py) st = Inr st' \<and>
            (currentMouseParam st = Some ''h'' \<and> px \<le> l \<longrightarrow> hsv_h (currentHSVColor st') = Fin 0) \<and>
            (currentMouseParam st = Some ''sv'' \<and> px \<le> l \<longrightarrow> hsv_s (currentHSVColor st') = Fin 0) \<and>
            (currentMouseParam st = Some ''sv'' \<and> l + w \<le> px \<longrightarrow> hsv_s (currentHSVColor st') = Fin 1) \<and>
            (currentMouseParam st = Some ''sv'' \<and> py \<le> t \<longrightarrow> hsv_v (currentHSVColor st') = Fin 1) \<and>
            (currentMouseParam st = Some ''sv'' \<and> t + h \<le> py \<longrightarrow> hsv_v (currentHSVColor st') = Fin 0) \<and>
            (currentMouseParam st = Some ''a'' \<and> px \<le> l \<longrightarrow> rgba_a (currentRGBColor st') = Fin 0) \<and>
            (currentMouseParam st = Some ''a'' \<and> l + w \<le> px \<longrightarrow> rgba_a (currentRGBColor st') = Fin 1)"
    using assms
    by (auto simp add: updateFromMouseEvent_def updateHSV_def updateUIValues_def emit_change_def
        Let_def clamp new_ColorRGBA64_def left right above below)
  show "px \<le> l \<longrightarrow>
          updateFromMouseEvent E (Fin px) (Fin py) st = updateFromMouseEvent E (Fin l) (Fin py) st"
    using assms by (simp add: updateFromMouseEvent_def Let_def clamp left)
qed

text \<open>
  A pointer at \<open>x = -50\<close> and one at \<open>x = 0\<close> over a box of width 200 and height 100 at
  the origin, both at \<open>y = 10\<close>: the same state, with saturation 0 and value 90 percent.
\<close>

theorem updateFromMouseEvent_clamps_witness:
  "updateFromMouseEvent sample_env (Fin (- 50)) (Fin 10)
       (dragging ''sv'' (DOMRect (Fin 0) (Fin 0) (Fin 200) (Fin 100))) =
     updateFromMouseEvent sample_env (Fin 0) (Fin 10)
       (dragging ''sv'' (DOMRect (Fin 0) (Fin 0) (Fin 200) (Fin 100))) \<and>
   updateFromMouseEvent sample_env (Fin (- 50)) (Fin 10)
       (dragging ''sv'' (DOMRect (Fin 0) (Fin 0) (Fin 200) (Fin 100))) =
     Inr ((dragging ''sv'' (DOMRect (Fin 0) (Fin 0) (Fin 200) (Fin 100)))
            \<lparr>currentHSVColor := ColorHSV (Fin 0) (Fin 0) (Fin (9 / 10)),
             currentRGBColor := ColorRGBA64 (Fin (9 / 10)) (Fin (9 / 10)) (Fin (9 / 10)) (Fin 1),
             uiValues := (uiValues red_picker)
                \<lparr>RGBColor := ColorRGBA64 (Fin (9 / 10)) (Fin (9 / 10)) (Fin (9 / 10)) (Fin 1),
                 HSVColor := ColorHSV (Fin 0) (Fin 0) (Fin (9 / 10)),
                 SatValTopPos := Fin 10, SatValLeftPos := Fin 0\<rparr>,
             value_str := ''#e6e6e6'',
             changeEvents := 1\<rparr>)"
proof -
  have t: "currentMouseTarget (dragging ''sv'' (DOMRect (Fin 0) (Fin 0) (Fin 200) (Fin 100))) =
      Some (DOMRect (Fin 0) (Fin 0) (Fin 200) (Fin 100))"
    by (simp add: dragging_def)
  have same: "updateFromMouseEvent sample_env (Fin (- 50)) (Fin 10)
       (dragging ''sv'' (DOMRect (Fin 0) (Fin 0) (Fin 200) (Fin 100))) =
     updateFromMouseEvent sample_env (Fin 0) (Fin 10)
       (dragging ''sv'' (DOMRect (Fin 0) (Fin 0) (Fin 200) (Fin 100)))"
    using updateFromMouseEvent_clamps [OF t, of "- 50" 10 sample_env, THEN conjunct2, THEN conjunct2]
    by simp
  have colour: "updateFromMouseEvent sample_env (Fin (- 50)) (Fin 10)
       (dragging ''sv'' (DOMRect (Fin 0) (Fin 0) (Fin 200) (Fin 100))) =
     Inr ((dragging ''sv'' (DOMRect (Fin 0) (Fin 0) (Fin 200) (Fin 100)))
            \<lparr>currentHSVColor := ColorHSV (Fin 0) (Fin 0) (Fin (9 / 10)),
             currentRGBColor := ColorRGBA64 (Fin (9 / 10)) (Fin (9 / 10)) (Fin (9 / 10)) (Fin 1),
             uiValues := (uiValues red_picker)
                \<lparr>RGBColor := ColorRGBA64 (Fin (9 / 10)) (Fin (9 / 10)) (Fin (9 / 10)) (Fin 1),
                 HSVColor := ColorHSV (Fin 0) (Fin 0) (Fin (9 / 10)),
                 SatValTopPos := Fin 10, SatValLeftPos := Fin 0\<rparr>,
             value_str := ''#e6e6e6'',
             changeEvents := 1\<rparr>)"
    using updateFromMouseEvent_clamps [OF t, of "- 50" 10 sample_env, THEN conjunct1]
    by (simp add: Let_def new_ColorPickerUI_def dragging_def red_picker_def sample_defs)
  from same colour show ?thesis by (rule conjI)
qed

text \<open>
  Claim C8. When \<open>hsvToRGB\<close> gives its result the alpha it is handed, a second update
  of the drag with the same pointer position (and the same box, which the state holds)
  leaves the state the first update produced, apart from the number of change events:
  the same colours, snapshot and form value.
\<close>

theorem updateFromMouseEvent_idempotent:
  assumes alpha: "\<And>c al. rgba_a (hsvToRGB E c al) = al"
    and once: "updateFromMouseEvent E pageX pageY st = Inr st1"
  shows "\<exists>n. updateFromMouseEvent E pageX pageY st1 = Inr (st1\<lparr>changeEvents := n\<rparr>)"
proof -
  from once obtain pos where pos: "currentMouseTarget st = Some pos"
    by (auto simp: updateFromMouseEvent_def split: option.splits)
  consider (h) "currentMouseParam st = Some ''h''" | (sv) "currentMouseParam st = Some ''sv''"
    | (a) "currentMouseParam st = Some ''a''"
    | (none) "currentMouseParam st \<notin> {Some ''h'', Some ''sv'', Some ''a''}"
    by auto
  then show ?thesis
  proof cases
    case h
    with once pos alpha show ?thesis
      by (auto simp: updateFromMouseEvent_def updateHSV_def updateUIValues_def emit_change_def Let_def)
  next
    case sv
    with once pos alpha show ?thesis
      by (auto simp: updateFromMouseEvent_def updateHSV_def updateUIValues_def emit_change_def Let_def)
  next
    case a
    with once pos show ?thesis
      by (auto simp: updateFromMouseEvent_def updateUIValues_def emit_change_def new_ColorRGBA64_def
          Let_def)
  next
    case none
    with once pos have "st1 = st"
      by (auto simp: updateFromMouseEvent_def Let_def)
    with once have "updateFromMouseEvent E pageX pageY st1 = Inr (st1\<lparr>changeEvents := changeEvents st1\<rparr>)"
      by simp
    then show ?thesis by blast
  qed
qed

text \<open>Two updates at (77, 53) of a drag over the saturation-value square of the sample.\<close>

theorem updateFromMouseEvent_idempotent_witness:
  "\<exists>st1 n. updateFromMouseEvent sample_env (Fin 77) (Fin 53) (dragging ''sv'' sample_box) = Inr st1 \<and>
     updateFromMouseEvent sample_env (Fin 77) (Fin 53) st1 = Inr (st1\<lparr>changeEvents := n\<rparr>)"
proof -
  have alpha: "\<And>c al. rgba_a (hsvToRGB sample_env c al) = al"
    by (simp add: sample_env_def sample_hsvToRGB_alpha)
  have once: "updateFromMouseEvent sample_env (Fin 77) (Fin 53) (dragging ''sv'' sample_box) =
     Inr (updateHSV sample_env (Fin 0) (Fin (34 / 100)) (Fin (67 / 100)) (dragging ''sv'' sample_box))"
    by (simp add: updateFromMouseEvent_def clamp_offset_def js_gt_def Let_def dragging_def
        sample_box_def red_picker_def)
  from updateFromMouseEvent_idempotent [OF alpha once] once show ?thesis by blast
qed

text \<open>
  Claim C9, as amended. A mouse-down over a box of width zero, at any finite position
  and with a finite left edge, clamps the offset to 0 and divides 0 by 0: in zone \<open>h\<close>
  the hue and in zone \<open>sv\<close> the saturation of the current HSV colour becomes NaN.
  Over a box of height zero, in zone \<open>sv\<close>, the value becomes NaN. In zone \<open>a\<close> the
  alpha computed over a width of zero is NaN as well, but the constructor of the
  colour replaces it: the alpha of the current colour becomes 1.
\<close>

theorem handleMouseDown_zero_size:
  "clamp_offset (js_sub (Fin px) (Fin l)) (Fin 0) = Fin 0 \<and>
   js_div (Fin 0) (Fin 0) = NaN \<and>
   (\<exists>st'. handleMouseDown E ''h'' (DOMRect (Fin l) tp (Fin 0) ht) (Fin px) py st = Inr st' \<and>
          hsv_h (currentHSVColor st') = NaN) \<and>
   (\<exists>st'. handleMouseDown E ''sv'' (DOMRect (Fin l) tp (Fin 0) ht) (Fin px) py st = Inr st' \<and>
          hsv_s (currentHSVColor st') = NaN) \<and>
   (\<exists>st'. handleMouseDown E ''sv'' (DOMRect lf (Fin t) wd (Fin 0)) px' (Fin py') st = Inr st' \<and>
          hsv_v (currentHSVColor st') = NaN) \<and>
   (\<exists>st'. handleMouseDown E ''a'' (DOMRect (Fin l) tp (Fin 0) ht) (Fin px) py st = Inr st' \<and>
          rgba_a (currentRGBColor st') = Fin 1)"
  by (simp add: handleMouseDown_def updateFromMouseEvent_def updateHSV_def updateUIValues_def
      emit_change_def clamp_offset_def js_gt_def new_ColorRGBA64_def Let_def)

text \<open>A mouse-down on a hue bar of width zero in the sample.\<close>

theorem handleMouseDown_zero_size_witness:
  "\<exists>st'. handleMouseDown sample_env ''h'' (DOMRect (Fin 10) (Fin 20) (Fin 0) (Fin 100))
            (Fin 77) (Fin 53) red_picker = Inr st' \<and>
         hsv_h (currentHSVColor st') = NaN"
  using handleMouseDown_zero_size [of 77 10 sample_env "Fin 20" "Fin 100" "Fin 53" red_picker
      "Fin 10" 20 "Fin 200" "Fin 77" 53]
  by blast

text \<open>
  Claim C9, as stated, fails for two of the drags it names. A mouse-down on an alpha
  bar of width zero in the sample leaves the red picker opaque red with the form value
  \<open>#ff0000\<close>: no NaN is committed. A mouse-down on a hue bar of height zero (and width
  200) commits the finite hue 24053/200 and a finite colour: the height is not used in
  that zone.
\<close>

theorem zero_size_without_nan:
  "handleMouseDown sample_env ''a'' (DOMRect (Fin 10) (Fin 20) (Fin 0) (Fin 100)) (Fin 77) (Fin 53)
       red_picker =
     Inr (red_picker
            \<lparr>currentMouseTarget := Some (DOMRect (Fin 10) (Fin 20) (Fin 0) (Fin 100)),
             currentMouseParam := Some ''a'',
             changeEvents := 1,
             isMouseActive := True\<rparr>) \<and>
   currentRGBColor red_picker = ColorRGBA64 (Fin 1) (Fin 0) (Fin 0) (Fin 1) \<and>
   currentHSVColor red_picker = ColorHSV (Fin 0) (Fin 1) (Fin 1) \<and>
   value_str red_picker = ''#ff0000'' \<and>
   handleMouseDown sample_env ''h'' (DOMRect (Fin 10) (Fin 20) (Fin 200) (Fin 0)) (Fin 77) (Fin 53)
       red_picker =
     Inr (red_picker
            \<lparr>currentMouseTarget := Some (DOMRect (Fin 10) (Fin 20) (Fin 200) (Fin 0)),
             currentMouseParam := Some ''h'',
             currentHSVColor := ColorHSV (Fin (24053 / 200)) (Fin 1) (Fin 1),
             currentRGBColor := ColorRGBA64 (Fin 0) (Fin 1) (Fin (53 / 12000)) (Fin 1),
             uiValues := \<lparr> RGBColor = ColorRGBA64 (Fin 0) (Fin 1) (Fin (53 / 12000)) (Fin 1),
                           HSVColor = ColorHSV (Fin (24053 / 200)) (Fin 1) (Fin 1),
                           HueCSSColor = ''#00ff01'',
                           HuePosition = Fin (24053 / 720),
                           SatValTopPos = Fin 0,
                           SatValLeftPos = Fin 100,
                           AlphaPos = Fin 100 \<rparr>,
             value_str := ''#00ff01'',
             changeEvents := 1,
             isMouseActive := True\<rparr>)"
  by (simp add: handleMouseDown_def updateFromMouseEvent_def updateHSV_def updateUIValues_def
      new_ColorPickerUI_def emit_change_def clamp_offset_def js_gt_def js_neq_one new_ColorRGBA64_def
      red_picker_def sample_defs Let_def)

end
